theory Spec2Isabelle
  imports Complex_Main "HOL-Library.AList" "HOL-Library.Multiset" "HOL-Library.Sublist"
begin

section \<open>Go runtime and library boundary\<close>

subsection \<open>Iteration over a Go map\<close>

text \<open>
  A Go map that the program ranges over is modelled as an association list with distinct
  keys: \<open>m[k] = v\<close> is \<open>AList.update k v m\<close> and \<open>m[k]\<close> is \<open>map_of m k\<close>.

  The language leaves the order of \<^verbatim>\<open>for k, v := range m\<close> unspecified, and the runtime
  varies it from one loop to the next. The order is therefore an input of the model: a list
  of choices \<open>cs\<close>, consumed one per visited entry, where choice \<open>c\<close> selects entry
  \<open>c mod n\<close> of the \<open>n\<close> entries not yet visited. Once the choices are used up the
  remaining entries are visited in the order they are stored. Every order of the entries, and
  nothing else, is obtained this way (lemmas \<open>mset_go_range\<close> and \<open>go_range_any_order\<close>).
\<close>

primrec go_range :: "nat list \<Rightarrow> 'a list \<Rightarrow> 'a list" where
  "go_range [] xs = xs"
| "go_range (c # cs) xs =
     (if xs = [] then []
      else let i = c mod length xs
           in xs ! i # go_range cs (take i xs @ drop (Suc i) xs))"

subsection \<open>Errors\<close>

text \<open>
  A Go \<open>error\<close> value. \<open>LibError\<close> is an error returned by the standard library
  (\<open>os\<close>, \<open>encoding/json\<close>), identified by its text. \<open>ParseError\<close>, \<open>MarshalError\<close>,
  \<open>ReadError\<close> and \<open>WriteError\<close> are the structs of package \<open>core\<close>, each with its
  \<open>Format\<close> or \<open>Path\<close> field and the wrapped cause \<open>Err\<close>. \<open>Errorf\<close> is the value of
  \<^verbatim>\<open>fmt.Errorf(format, args...)\<close>, kept as the format string and its arguments.
\<close>

datatype error =
    LibError string
  | ParseError string error
  | MarshalError string error
  | ReadError string error
  | WriteError string error
  | Errorf string "arg list"
and arg = S string | N int | E error

subsection \<open>Canonical agent and agentkit config\<close>

text \<open>
  \<open>core.Agent\<close>, with the fields the adapter reads and writes, and \<open>AgentConfig\<close> of
  \<^verbatim>\<open>agents/agentkit/adapter.go\<close>. A nil slice and an empty slice are both \<open>[]\<close>.
\<close>

record Agent =
  Name :: string
  Description :: string
  Instructions :: string
  Tools :: "string list"
  Model :: string

record AgentConfig =
  cfgName :: string
  cfgDescription :: string
  cfgInstructions :: string
  cfgTools :: "string list"
  cfgModel :: string
  cfgMaxTokens :: int

subsection \<open>The full agentkit configuration\<close>

text \<open>
  \<open>Config\<close> and its parts, of \<^verbatim>\<open>agents/agentkit/adapter.go\<close>. \<open>Temperature\<close> is a
  \<open>float64\<close> that the program only stores (the constant 0.7) and hands to the encoder.
\<close>

record MCPConfig =
  mcpEnabled :: bool
  mcpTransport :: string
  mcpPort :: int
  mcpServerName :: string
  mcpServerVersion :: string

record LLMConfig =
  llmProvider :: string
  llmModel :: string
  llmAPIKey :: string
  llmBaseURL :: string
  llmTemperature :: rat

record TimeoutConfig =
  toAgentInvoke :: string
  toShellCommand :: string
  toFileRead :: string
  toParallelTotal :: string

record Config =
  confMode :: string
  confWorkspace :: string
  confAgents :: "AgentConfig list"
  confMCP :: MCPConfig
  confLLM :: LLMConfig
  confTimeouts :: TimeoutConfig

subsection \<open>Deployment descriptor\<close>

text \<open>
  \<open>Deployment\<close> and \<open>Target\<close> of the \<open>genagents\<close> command. A value of
  \<^verbatim>\<open>map[string]interface{}\<close> is inspected only by the type assertion \<^verbatim>\<open>.(string)\<close>, so a
  decoded JSON value is either a string or something else. \<open>AgentCoreConfig\<close> belongs to
  package \<open>awsagentcore\<close>; it has the four fields the command assigns.
\<close>

datatype jvalue = JString string | JOther

record Target =
  tgtName :: string
  tgtPlatform :: string
  tgtPriority :: string
  tgtOutput :: string
  tgtConfig :: "string \<rightharpoonup> jvalue"

record Deployment =
  depSchema :: string
  depTeam :: string
  depTargets :: "Target list"

record AgentCoreConfig =
  accStackName :: string
  accRegion :: string
  accFoundationModel :: string
  accLambdaRuntime :: string

subsection \<open>Standard library and neighbouring packages as parameters\<close>

text \<open>
  What the program calls outside the sources at hand: \<open>strings.ToLower\<close>,
  \<open>strings.ToUpper\<close>, \<open>strings.TrimSpace\<close>; \<open>json.MarshalIndent\<close> and
  \<open>json.Unmarshal\<close> at the types they are used at; \<open>filepath.Dir\<close> and
  \<open>filepath.Join\<close>; \<open>os.MkdirAll\<close>, \<open>os.WriteFile\<close> and \<open>os.ReadFile\<close> acting on a
  file system \<open>'fs\<close>; the two permission constants of package \<open>core\<close>;
  \<open>agents.ReadCanonicalDir\<close>; \<open>awsagentcore.WriteCDKProject\<close>; and the text that
  \<open>flag.Usage\<close> prints. The theorems hold for every such library.
\<close>

record 'fs golib =
  strings_ToLower :: "string \<Rightarrow> string"
  strings_ToUpper :: "string \<Rightarrow> string"
  strings_TrimSpace :: "string \<Rightarrow> string"
  json_MarshalIndent :: "AgentConfig \<Rightarrow> error + string"
  json_MarshalIndent_Config :: "Config \<Rightarrow> error + string"
  json_Unmarshal :: "string \<Rightarrow> error + AgentConfig"
  json_Unmarshal_Deployment :: "string \<Rightarrow> error + Deployment"
  filepath_Dir :: "string \<Rightarrow> string"
  filepath_Join :: "string \<Rightarrow> string \<Rightarrow> string"
  os_MkdirAll :: "string \<Rightarrow> nat \<Rightarrow> 'fs \<Rightarrow> error option \<times> 'fs"
  os_WriteFile :: "string \<Rightarrow> string \<Rightarrow> nat \<Rightarrow> 'fs \<Rightarrow> error option \<times> 'fs"
  os_ReadFile :: "string \<Rightarrow> 'fs \<Rightarrow> error + string"
  core_DefaultDirMode :: nat
  core_DefaultFileMode :: nat
  agents_ReadCanonicalDir :: "string \<Rightarrow> 'fs \<Rightarrow> error + Agent list"
  awsagentcore_WriteCDKProject ::
    "string \<Rightarrow> Agent list \<Rightarrow> string \<Rightarrow> AgentCoreConfig \<Rightarrow> 'fs \<Rightarrow> error option \<times> 'fs"
  flag_Usage :: string

text \<open>
  \<open>strings.Split\<close>, \<open>strings.SplitN\<close> with \<open>n = 2\<close> and \<open>strings.Join\<close> work on bytes
  and are written out; the separators the program passes are single characters.
\<close>

fun strings_Split :: "string \<Rightarrow> char \<Rightarrow> string list" where
  "strings_Split [] sep = [[]]"
| "strings_Split (c # cs) sep =
     (if c = sep then [] # strings_Split cs sep
      else (case strings_Split cs sep of
              [] \<Rightarrow> [[c]]
            | p # ps \<Rightarrow> (c # p) # ps))"

definition strings_SplitN2 :: "string \<Rightarrow> char \<Rightarrow> string list" where
  "strings_SplitN2 s sep =
     (if sep \<in> set s
      then [takeWhile (\<lambda>c. c \<noteq> sep) s, tl (dropWhile (\<lambda>c. c \<noteq> sep) s)]
      else [s])"

fun strings_Join :: "string list \<Rightarrow> string \<Rightarrow> string" where
  "strings_Join [] sep = []"
| "strings_Join [x] sep = x"
| "strings_Join (x # y # ys) sep = x @ sep @ strings_Join (y # ys) sep"

subsection \<open>The process and its surroundings\<close>

text \<open>
  The state a run of the command acts on: the file system, what has been printed to standard
  output and to standard error (each \<open>Printf\<close> kept as its format string and arguments), and
  the orders in which the runtime will range over maps, one per range loop still to come.
\<close>

record 'fs world =
  files :: 'fs
  stdout :: "(string \<times> arg list) list"
  stderr :: "(string \<times> arg list) list"
  ranges :: "nat list list"

definition Printf :: "string \<Rightarrow> arg list \<Rightarrow> 'fs world \<Rightarrow> 'fs world" where
  "Printf format args w = w\<lparr>stdout := stdout w @ [(format, args)]\<rparr>"

definition Fprintf_Stderr :: "string \<Rightarrow> arg list \<Rightarrow> 'fs world \<Rightarrow> 'fs world" where
  "Fprintf_Stderr format args w = w\<lparr>stderr := stderr w @ [(format, args)]\<rparr>"

definition onFiles :: "('fs \<Rightarrow> 'r \<times> 'fs) \<Rightarrow> 'fs world \<Rightarrow> 'r \<times> 'fs world" where
  "onFiles f w = (case f (files w) of (r, fs') \<Rightarrow> (r, w\<lparr>files := fs'\<rparr>))"

definition takeRanges :: "nat \<Rightarrow> 'fs world \<Rightarrow> nat list list \<times> 'fs world" where
  "takeRanges n w = (take n (ranges w), w\<lparr>ranges := drop n (ranges w)\<rparr>)"

text \<open>How a process ends: \<open>main\<close> returns, or \<open>os.Exit\<close> is called with a status.\<close>

datatype outcome = Return | Exit nat

subsection \<open>The adapter registry\<close>

text \<open>
  The methods of the \<open>core.Adapter\<close> interface that the command calls. \<open>WriteFile\<close> acts
  on the world, so that an adapter may range over maps.
\<close>

record 'fs Adapter =
  adFileExtension :: string
  adWriteFile :: "Agent \<Rightarrow> string \<Rightarrow> 'fs world \<Rightarrow> error option \<times> 'fs world"

text \<open>
  Modelled from the spec: the registry of package \<open>core\<close> (\<open>Register\<close>, \<open>GetAdapter\<close>,
  \<open>AdapterNames\<close>), which is not among the sources. It is a table from adapter name to
  adapter; \<open>GetAdapter\<close> is a pure lookup with a not-found signal, and \<open>AdapterNames\<close>
  lists all registered names.
\<close>

type_synonym 'fs registry = "(string \<times> 'fs Adapter) list"

definition Register :: "string \<Rightarrow> 'fs Adapter \<Rightarrow> 'fs registry \<Rightarrow> 'fs registry" where
  "Register name adapter reg = AList.update name adapter reg"

definition GetAdapter :: "'fs registry \<Rightarrow> string \<Rightarrow> 'fs Adapter option" where
  "GetAdapter reg name = map_of reg name"

definition AdapterNames :: "'fs registry \<Rightarrow> string list" where
  "AdapterNames reg = remdups (map fst reg)"

section \<open>The agentkit adapter\<close>

subsection \<open>Mapping tables\<close>

definition toolMapping :: "(string \<times> string) list" where
  "toolMapping =
    [(''WebSearch'', ''shell''),
     (''WebFetch'', ''shell''),
     (''Read'', ''read''),
     (''Write'', ''write''),
     (''Glob'', ''glob''),
     (''Grep'', ''grep''),
     (''Bash'', ''shell''),
     (''Edit'', ''write''),
     (''Task'', ''shell'')]"

definition modelMapping :: "(string \<times> string) list" where
  "modelMapping =
    [(''haiku'', ''claude-3-haiku-20240307''),
     (''sonnet'', ''claude-3-5-sonnet-20241022''),
     (''opus'', ''claude-3-opus-20240229'')]"

subsection \<open>agentToConfig\<close>

text \<open>The first loop of \<open>agentToConfig\<close>: one step, and the set it builds.\<close>

definition addTool :: "'fs golib \<Rightarrow> string \<Rightarrow> (string \<times> bool) list \<Rightarrow> (string \<times> bool) list" where
  "addTool lib tool toolSet =
     (case map_of toolMapping tool of
        Some mapped \<Rightarrow> AList.update mapped True toolSet
      | None \<Rightarrow> AList.update (strings_ToLower lib tool) True toolSet)"

definition toolSetOf :: "'fs golib \<Rightarrow> string list \<Rightarrow> (string \<times> bool) list" where
  "toolSetOf lib tools = fold (addTool lib) tools []"

text \<open>The key under which one tool is entered into \<open>toolSet\<close>.\<close>

definition destTool :: "'fs golib \<Rightarrow> string \<Rightarrow> string" where
  "destTool lib tool =
     (case map_of toolMapping tool of
        Some mapped \<Rightarrow> mapped
      | None \<Rightarrow> strings_ToLower lib tool)"

text \<open>
  \<open>agentToConfig lib order agent\<close>; \<open>order\<close> is the order in which the runtime ranges
  over \<open>toolSet\<close>. \<open>MaxTokens\<close> is never assigned and keeps its zero value.
\<close>

definition agentToConfig :: "'fs golib \<Rightarrow> nat list \<Rightarrow> Agent \<Rightarrow> AgentConfig" where
  "agentToConfig lib order agent =
     \<lparr> cfgName = Name agent,
       cfgDescription = Description agent,
       cfgInstructions = Instructions agent,
       cfgTools = fold (\<lambda>(tool, _) tools. tools @ [tool]) (go_range order (toolSetOf lib (Tools agent))) [],
       cfgModel =
         (case map_of modelMapping (Model agent) of
            Some model \<Rightarrow> model
          | None \<Rightarrow> if Model agent \<noteq> [] then Model agent else []),
       cfgMaxTokens = 0 \<rparr>"

subsection \<open>configToAgent\<close>

text \<open>
  The reverse table is rebuilt on every call by ranging over \<open>toolMapping\<close>, a later
  entry overwriting an earlier one with the same value; \<open>order\<close> is the order of that range.
\<close>

definition reverseToolMapping :: "nat list \<Rightarrow> string \<rightharpoonup> string" where
  "reverseToolMapping order = fold (\<lambda>(k, v) r. r(v \<mapsto> k)) (go_range order toolMapping) Map.empty"

definition reverseTool :: "nat list \<Rightarrow> string \<Rightarrow> string" where
  "reverseTool order tool =
     (case reverseToolMapping order tool of Some mapped \<Rightarrow> mapped | None \<Rightarrow> tool)"

definition configToAgent :: "nat list \<Rightarrow> AgentConfig \<Rightarrow> Agent" where
  "configToAgent order cfg =
     \<lparr> Name = cfgName cfg,
       Description = cfgDescription cfg,
       Instructions = cfgInstructions cfg,
       Tools = fold (\<lambda>tool tools. tools @ [reverseTool order tool]) (cfgTools cfg) [],
       Model = cfgModel cfg \<rparr>"

subsection \<open>Parse, Marshal, WriteFile\<close>

definition Parse :: "'fs golib \<Rightarrow> nat list \<Rightarrow> string \<Rightarrow> error + Agent" where
  "Parse lib order data =
     (case json_Unmarshal lib data of
        Inl err \<Rightarrow> Inl (ParseError ''agentkit'' err)
      | Inr cfg \<Rightarrow> Inr (configToAgent order cfg))"

definition Marshal :: "'fs golib \<Rightarrow> nat list \<Rightarrow> Agent \<Rightarrow> error + string" where
  "Marshal lib order agent =
     (case json_MarshalIndent lib (agentToConfig lib order agent) of
        Inl err \<Rightarrow> Inl (MarshalError ''agentkit'' err)
      | Inr data \<Rightarrow> Inr (data @ ''\<newline>''))"

text \<open>
  \<open>WriteFile\<close> returns the error (or \<open>None\<close> for nil) and the file system it leaves behind.
\<close>

definition WriteFile :: "'fs golib \<Rightarrow> nat list \<Rightarrow> Agent \<Rightarrow> string \<Rightarrow> 'fs \<Rightarrow> error option \<times> 'fs" where
  "WriteFile lib order agent path fs =
     (case Marshal lib order agent of
        Inl err \<Rightarrow> (Some err, fs)
      | Inr data \<Rightarrow>
          (case os_MkdirAll lib (filepath_Dir lib path) (core_DefaultDirMode lib) fs of
             (Some err, fs1) \<Rightarrow> (Some (WriteError path err), fs1)
           | (None, fs1) \<Rightarrow>
               (case os_WriteFile lib path data (core_DefaultFileMode lib) fs1 of
                  (Some err, fs2) \<Rightarrow> (Some (WriteError path err), fs2)
                | (None, fs2) \<Rightarrow> (None, fs2))))"

definition ReadFile :: "'fs golib \<Rightarrow> nat list \<Rightarrow> string \<Rightarrow> 'fs \<Rightarrow> error + Agent" where
  "ReadFile lib order path fs =
     (case os_ReadFile lib path fs of
        Inl err \<Rightarrow> Inl (ReadError path err)
      | Inr data \<Rightarrow> Parse lib order data)"

subsection \<open>DefaultConfig, GenerateFullConfig, WriteFullConfig\<close>

definition DefaultConfig :: Config where
  "DefaultConfig =
     \<lparr> confMode = ''local'',
       confWorkspace = ''.'',
       confAgents = [],
       confMCP = \<lparr> mcpEnabled = True, mcpTransport = ''stdio'', mcpPort = 0,
                   mcpServerName = ''agentkit-local'', mcpServerVersion = ''1.0.0'' \<rparr>,
       confLLM = \<lparr> llmProvider = ''anthropic'', llmModel = ''claude-3-5-sonnet-20241022'',
                   llmAPIKey = ''${ANTHROPIC_API_KEY}'', llmBaseURL = [],
                   llmTemperature = 7 / 10 \<rparr>,
       confTimeouts = \<lparr> toAgentInvoke = ''5m'', toShellCommand = ''2m'',
                        toFileRead = ''30s'', toParallelTotal = ''10m'' \<rparr> \<rparr>"

definition firstOrder :: "nat list list \<Rightarrow> nat list" where
  "firstOrder orders = (case orders of [] \<Rightarrow> [] | order # _ \<Rightarrow> order)"

text \<open>
  The loop of \<open>GenerateFullConfig\<close>; each call of \<open>agentToConfig\<close> ranges over its own
  \<open>toolSet\<close>, in the next of the given orders.
\<close>

fun appendAgentConfigs ::
  "'fs golib \<Rightarrow> nat list list \<Rightarrow> Agent list \<Rightarrow> AgentConfig list \<Rightarrow> AgentConfig list" where
  "appendAgentConfigs lib orders [] cfgs = cfgs"
| "appendAgentConfigs lib orders (agent # rest) cfgs =
     appendAgentConfigs lib (drop 1 orders) rest
       (cfgs @ [agentToConfig lib (firstOrder orders) agent])"

definition GenerateFullConfig :: "'fs golib \<Rightarrow> nat list list \<Rightarrow> Agent list \<Rightarrow> Config" where
  "GenerateFullConfig lib orders agents =
     DefaultConfig\<lparr>confAgents := appendAgentConfigs lib orders agents (confAgents DefaultConfig)\<rparr>"

definition WriteFullConfig ::
  "'fs golib \<Rightarrow> nat list list \<Rightarrow> Agent list \<Rightarrow> string \<Rightarrow> 'fs \<Rightarrow> error option \<times> 'fs" where
  "WriteFullConfig lib orders agents path fs =
     (case json_MarshalIndent_Config lib (GenerateFullConfig lib orders agents) of
        Inl err \<Rightarrow> (Some (MarshalError ''agentkit'' err), fs)
      | Inr data \<Rightarrow>
          (case os_MkdirAll lib (filepath_Dir lib path) (core_DefaultDirMode lib) fs of
             (Some err, fs1) \<Rightarrow> (Some (WriteError path err), fs1)
           | (None, fs1) \<Rightarrow>
               (case os_WriteFile lib path (data @ ''\<newline>'') (core_DefaultFileMode lib) fs1 of
                  (Some err, fs2) \<Rightarrow> (Some (WriteError path err), fs2)
                | (None, fs2) \<Rightarrow> (None, fs2))))"

text \<open>
  The adapter as the registry holds it (\<open>Name\<close> is \<open>agentkit\<close>, \<open>FileExtension\<close> is
  \<open>.json\<close>); its \<open>WriteFile\<close> ranges over one map.
\<close>

definition agentkitName :: string where
  "agentkitName = ''agentkit''"

definition agentkitAdapter :: "'fs golib \<Rightarrow> 'fs Adapter" where
  "agentkitAdapter lib =
     \<lparr> adFileExtension = ''.json'',
       adWriteFile = (\<lambda>agent path w.
         case takeRanges 1 w of
           (orders, w1) \<Rightarrow> onFiles (WriteFile lib (firstOrder orders) agent path) w1) \<rparr>"

section \<open>The genagents command\<close>

subsection \<open>generateAgents\<close>

text \<open>The permission \<open>0755\<close> that \<open>generateAgents\<close> passes to \<open>os.MkdirAll\<close>.\<close>

definition mode_0755 :: nat where
  "mode_0755 = 7 * 64 + 5 * 8 + 5"

text \<open>The loop "write each agent" of \<open>generateAgents\<close>.\<close>

fun writeAgents ::
  "'fs golib \<Rightarrow> 'fs Adapter \<Rightarrow> string \<Rightarrow> bool \<Rightarrow> Agent list \<Rightarrow> 'fs world \<Rightarrow> error option \<times> 'fs world" where
  "writeAgents lib adapter outputDir verbose [] w = (None, w)"
| "writeAgents lib adapter outputDir verbose (agent # rest) w =
     (let filename = Name agent @ adFileExtension adapter;
          path = filepath_Join lib outputDir filename
      in case adWriteFile adapter agent path w of
           (Some err, w1) \<Rightarrow> (Some (Errorf ''failed to write %s: %w'' [S path, E err]), w1)
         | (None, w1) \<Rightarrow>
             writeAgents lib adapter outputDir verbose rest
               (if verbose then Printf ''Generated %s\<newline>'' [S path] w1 else w1))"

definition generateAgents ::
  "'fs golib \<Rightarrow> 'fs registry \<Rightarrow> Agent list \<Rightarrow> string \<Rightarrow> string \<Rightarrow> bool \<Rightarrow> 'fs world \<Rightarrow> error option \<times> 'fs world" where
  "generateAgents lib reg agentList format outputDir verbose w =
     (case onFiles (os_MkdirAll lib outputDir mode_0755) w of
        (Some err, w1) \<Rightarrow> (Some (Errorf ''failed to create output directory: %w'' [E err]), w1)
      | (None, w1) \<Rightarrow>
          (case GetAdapter reg format of
             None \<Rightarrow>
               (Some (Errorf ''unknown format %q (available: %s)''
                        [S format, S (strings_Join (AdapterNames reg) '', '')]), w1)
           | Some adapter \<Rightarrow>
               (case writeAgents lib adapter outputDir verbose agentList w1 of
                  (Some err, w2) \<Rightarrow> (Some err, w2)
                | (None, w2) \<Rightarrow>
                    (None, Printf ''Generated %d %s agents in %s\<newline>''
                             [N (int (length agentList)), S format, S outputDir] w2))))"

subsection \<open>generateForPlatform\<close>

definition toPascalCase :: "'fs golib \<Rightarrow> string \<Rightarrow> string" where
  "toPascalCase lib s =
     fold (\<lambda>part result.
             if length part > 0
             then result @ strings_ToUpper lib (take 1 part) @ drop 1 part
             else result)
          (strings_Split s (CHR ''-'')) []"

definition configString :: "Target \<Rightarrow> string \<Rightarrow> string option" where
  "configString target key =
     (case tgtConfig target key of Some (JString v) \<Rightarrow> Some v | _ \<Rightarrow> None)"

definition agentCoreConfig :: "'fs golib \<Rightarrow> string \<Rightarrow> Target \<Rightarrow> AgentCoreConfig" where
  "agentCoreConfig lib teamName target =
     (let config = \<lparr> accStackName = toPascalCase lib teamName @ ''Stack'', accRegion = [],
                      accFoundationModel = [], accLambdaRuntime = [] \<rparr>;
          config = (case configString target ''region'' of
                      Some region \<Rightarrow> config\<lparr>accRegion := region\<rparr> | None \<Rightarrow> config);
          config = (case configString target ''foundationModel'' of
                      Some model \<Rightarrow> config\<lparr>accFoundationModel := model\<rparr> | None \<Rightarrow> config);
          config = (case configString target ''lambdaRuntime'' of
                      Some runtime \<Rightarrow> config\<lparr>accLambdaRuntime := runtime\<rparr> | None \<Rightarrow> config)
      in config)"

definition generateForPlatform ::
  "'fs golib \<Rightarrow> 'fs registry \<Rightarrow> string \<Rightarrow> Agent list \<Rightarrow> Target \<Rightarrow> string \<Rightarrow> bool \<Rightarrow> 'fs world
     \<Rightarrow> error option \<times> 'fs world" where
  "generateForPlatform lib reg teamName agentList target outputDir verbose w =
     (if tgtPlatform target = ''claude-code'' then
        generateAgents lib reg agentList ''claude'' outputDir verbose w
      else if tgtPlatform target = ''kiro-cli'' then
        generateAgents lib reg agentList ''kiro'' outputDir verbose w
      else if tgtPlatform target = ''agentkit-local'' then
        (let configPath = filepath_Join lib outputDir ''config.json''
         in case takeRanges (length agentList) w of
              (orders, w0) \<Rightarrow>
                (case onFiles (WriteFullConfig lib orders agentList configPath) w0 of
                   (Some err, w1) \<Rightarrow> (Some err, w1)
                 | (None, w1) \<Rightarrow>
                     (None, Printf ''Generated agentkit config: %s\<newline>'' [S configPath] w1)))
      else if tgtPlatform target = ''aws-agentcore'' then
        (case onFiles (awsagentcore_WriteCDKProject lib teamName agentList outputDir
                         (agentCoreConfig lib teamName target)) w of
           (Some err, w1) \<Rightarrow> (Some err, w1)
         | (None, w1) \<Rightarrow> (None, Printf ''Generated CDK project in %s\<newline>'' [S outputDir] w1))
      else if tgtPlatform target \<in> {''aws-eks'', ''azure-aks'', ''gcp-gke'', ''kubernetes''} then
        (None, Printf ''Kubernetes deployment not yet implemented for %s\<newline>''
                 [S (tgtPlatform target)] w)
      else (Some (Errorf ''unsupported platform: %s'' [S (tgtPlatform target)]), w))"

subsection \<open>runProjectMode\<close>

text \<open>What the loop prints, when verbose, before it generates for a target.\<close>

definition announceTarget :: "bool \<Rightarrow> Target \<Rightarrow> string \<Rightarrow> 'fs world \<Rightarrow> 'fs world" where
  "announceTarget verbose target outputDir w =
     (if verbose
      then Printf ''  Output: %s\<newline>'' [S outputDir]
             (Printf ''\<newline>Processing target: %s (%s)\<newline>''
                [S (tgtName target), S (tgtPlatform target)] w)
      else w)"

text \<open>The loop "process each target" of \<open>runProjectMode\<close>.\<close>

fun processTargets ::
  "'fs golib \<Rightarrow> 'fs registry \<Rightarrow> string \<Rightarrow> string \<Rightarrow> bool \<Rightarrow> string \<Rightarrow> Agent list \<Rightarrow> Target list
     \<Rightarrow> 'fs world \<Rightarrow> error option \<times> 'fs world" where
  "processTargets lib reg projectDir priorityFilter verbose team agentList [] w = (None, w)"
| "processTargets lib reg projectDir priorityFilter verbose team agentList (target # rest) w =
     (if priorityFilter \<noteq> [] \<and> tgtPriority target \<noteq> priorityFilter then
        processTargets lib reg projectDir priorityFilter verbose team agentList rest
          (if verbose
           then Printf ''Skipping %s (priority %s, filter %s)\<newline>''
                  [S (tgtName target), S (tgtPriority target), S priorityFilter] w
           else w)
      else
        (let outputDir = filepath_Join lib projectDir (tgtOutput target);
             w0 = announceTarget verbose target outputDir w
         in case generateForPlatform lib reg team agentList target outputDir verbose w0 of
              (Some err, w1) \<Rightarrow>
                (Some (Errorf ''failed to generate %s: %w'' [S (tgtName target), E err]), w1)
            | (None, w1) \<Rightarrow>
                processTargets lib reg projectDir priorityFilter verbose team agentList rest w1))"

definition runProjectMode ::
  "'fs golib \<Rightarrow> 'fs registry \<Rightarrow> string \<Rightarrow> string \<Rightarrow> bool \<Rightarrow> 'fs world \<Rightarrow> error option \<times> 'fs world" where
  "runProjectMode lib reg projectDir priorityFilter verbose w =
     (let deploymentPath = filepath_Join lib projectDir ''deployment.json''
      in case os_ReadFile lib deploymentPath (files w) of
           Inl err \<Rightarrow> (Some (Errorf ''failed to read deployment.json: %w'' [E err]), w)
         | Inr deploymentData \<Rightarrow>
             (case json_Unmarshal_Deployment lib deploymentData of
                Inl err \<Rightarrow> (Some (Errorf ''failed to parse deployment.json: %w'' [E err]), w)
              | Inr deployment \<Rightarrow>
                  (let w1 = (if verbose
                             then Printf ''Found %d deployment targets\<newline>''
                                    [N (int (length (depTargets deployment)))]
                                    (Printf ''Processing project: %s\<newline>'' [S (depTeam deployment)] w)
                             else w);
                       agentsDir = filepath_Join lib projectDir ''agents''
                   in case agents_ReadCanonicalDir lib agentsDir (files w1) of
                        Inl err \<Rightarrow> (Some (Errorf ''failed to read agents: %w'' [E err]), w1)
                      | Inr agentList \<Rightarrow>
                          if length agentList = 0 then
                            (Some (Errorf ''no agents found in %s'' [S agentsDir]), w1)
                          else
                            (let w2 = (if verbose
                                       then fold (\<lambda>agent. Printf ''  - %s\<newline>'' [S (Name agent)]) agentList
                                              (Printf ''Found %d agents:\<newline>''
                                                 [N (int (length agentList))] w1)
                                       else w1)
                             in processTargets lib reg projectDir priorityFilter verbose
                                  (depTeam deployment) agentList (depTargets deployment) w2))))"

subsection \<open>main\<close>

text \<open>The command-line flags after \<open>flag.Parse\<close>.\<close>

record flags =
  flagSpec :: string
  flagOutput :: string
  flagFormat :: string
  flagTargets :: string
  flagProject :: string
  flagPriority :: string
  flagVerbose :: bool

text \<open>The loop over \<open>targetPairs\<close> of \<open>main\<close>, up to the \<open>return\<close> that follows it.\<close>

fun generateTargets ::
  "'fs golib \<Rightarrow> 'fs registry \<Rightarrow> Agent list \<Rightarrow> bool \<Rightarrow> string list \<Rightarrow> 'fs world \<Rightarrow> outcome \<times> 'fs world" where
  "generateTargets lib reg agentList verbose [] w = (Return, w)"
| "generateTargets lib reg agentList verbose (pair # rest) w =
     (let parts = strings_SplitN2 pair (CHR '':'')
      in if length parts \<noteq> 2 then
           (Exit 1, Fprintf_Stderr ''Invalid target format: %s (expected format:dir)\<newline>'' [S pair] w)
         else
           (let targetFormat = strings_TrimSpace lib (parts ! 0);
                targetDir = strings_TrimSpace lib (parts ! 1)
            in case generateAgents lib reg agentList targetFormat targetDir verbose w of
                 (Some err, w1) \<Rightarrow>
                   (Exit 1, Fprintf_Stderr ''Error generating %s agents: %v\<newline>''
                              [S targetFormat, E err] w1)
               | (None, w1) \<Rightarrow> generateTargets lib reg agentList verbose rest w1))"

definition main :: "'fs golib \<Rightarrow> 'fs registry \<Rightarrow> flags \<Rightarrow> 'fs world \<Rightarrow> outcome \<times> 'fs world" where
  "main lib reg fl w =
     (if flagProject fl \<noteq> [] then
        (case runProjectMode lib reg (flagProject fl) (flagPriority fl) (flagVerbose fl) w of
           (Some err, w1) \<Rightarrow> (Exit 1, Fprintf_Stderr ''Error: %v\<newline>'' [E err] w1)
         | (None, w1) \<Rightarrow> (Return, w1))
      else
        (case agents_ReadCanonicalDir lib (flagSpec fl) (files w) of
           Inl err \<Rightarrow>
             (Exit 1, Fprintf_Stderr ''Error reading spec directory %s: %v\<newline>''
                        [S (flagSpec fl), E err] w)
         | Inr agentList \<Rightarrow>
             if length agentList = 0 then
               (Exit 1, Fprintf_Stderr ''No agents found in %s\<newline>'' [S (flagSpec fl)] w)
             else
               (let w1 = (if flagVerbose fl
                          then fold (\<lambda>agent. Printf ''  - %s: %s\<newline>''
                                                [S (Name agent), S (Description agent)]) agentList
                                 (Printf ''Found %d agents in %s\<newline>''
                                    [N (int (length agentList)), S (flagSpec fl)] w)
                          else w)
                in if flagTargets fl \<noteq> [] then
                     generateTargets lib reg agentList (flagVerbose fl)
                       (strings_Split (flagTargets fl) (CHR '','')) w1
                   else if flagOutput fl = [] then
                     (Exit 1, Fprintf_Stderr (flag_Usage lib) []
                                (Fprintf_Stderr ''Error: -output, -targets, or -project required\<newline>'' [] w1))
                   else
                     (case generateAgents lib reg agentList (flagFormat fl) (flagOutput fl)
                             (flagVerbose fl) w1 of
                        (Some err, w2) \<Rightarrow>
                          (Exit 1, Fprintf_Stderr ''Error generating agents: %v\<newline>'' [E err] w2)
                      | (None, w2) \<Rightarrow> (Return, w2)))))"

section \<open>A concrete library for worked examples\<close>

text \<open>
  The examples below run the program against a small library: an in-memory file system,
  ASCII versions of the string functions, and JSON functions given by a table of the few
  documents the examples use. It serves only to evaluate the program on concrete inputs.
\<close>

record memfs =
  dirs :: "(string \<times> nat) list"
  regular :: "(string \<times> string \<times> nat) list"

definition demo_Dir :: "string \<Rightarrow> string" where
  "demo_Dir path =
     (if CHR ''/'' \<in> set path
      then rev (tl (dropWhile (\<lambda>c. c \<noteq> CHR ''/'') (rev path)))
      else ''.'')"

definition demo_Join :: "string \<Rightarrow> string \<Rightarrow> string" where
  "demo_Join a b = (if a = [] then b else if b = [] then a else a @ ''/'' @ b)"

definition demo_MkdirAll :: "string \<Rightarrow> nat \<Rightarrow> memfs \<Rightarrow> error option \<times> memfs" where
  "demo_MkdirAll path perm fs =
     (if map_of (regular fs) path \<noteq> None then (Some (LibError ''not a directory''), fs)
      else if map_of (dirs fs) path \<noteq> None then (None, fs)
      else (None, fs\<lparr>dirs := dirs fs @ [(path, perm)]\<rparr>))"

definition demo_WriteFile :: "string \<Rightarrow> string \<Rightarrow> nat \<Rightarrow> memfs \<Rightarrow> error option \<times> memfs" where
  "demo_WriteFile path data perm fs =
     (if map_of (dirs fs) (demo_Dir path) = None
      then (Some (LibError ''no such file or directory''), fs)
      else (None, fs\<lparr>regular := AList.update path (data, perm) (regular fs)\<rparr>))"

definition demo_ReadFile :: "string \<Rightarrow> memfs \<Rightarrow> error + string" where
  "demo_ReadFile path fs =
     (case map_of (regular fs) path of
        None \<Rightarrow> Inl (LibError ''no such file or directory'')
      | Some (data, _) \<Rightarrow> Inr data)"

definition demo_ToLower :: "string \<Rightarrow> string" where
  "demo_ToLower s =
     map (\<lambda>c. case map_of (zip ''ABCDEFGHIJKLMNOPQRSTUVWXYZ'' ''abcdefghijklmnopqrstuvwxyz'') c of
                 Some l \<Rightarrow> l | None \<Rightarrow> c) s"

definition demo_ToUpper :: "string \<Rightarrow> string" where
  "demo_ToUpper s =
     map (\<lambda>c. case map_of (zip ''abcdefghijklmnopqrstuvwxyz'' ''ABCDEFGHIJKLMNOPQRSTUVWXYZ'') c of
                 Some u \<Rightarrow> u | None \<Rightarrow> c) s"

definition demo_TrimSpace :: "string \<Rightarrow> string" where
  "demo_TrimSpace s =
     rev (dropWhile (\<lambda>c. c \<in> set '' \<newline>'') (rev (dropWhile (\<lambda>c. c \<in> set '' \<newline>'') s)))"

text \<open>The example agent, its two possible configs, and their JSON documents.\<close>

definition demo_agent :: Agent where
  "demo_agent =
     \<lparr> Name = ''reviewer'', Description = ''Reviews code'', Instructions = ''Be brief.'',
       Tools = [''Read'', ''Bash'', ''Task''], Model = ''sonnet'' \<rparr>"

definition demo_config :: "string list \<Rightarrow> AgentConfig" where
  "demo_config tools =
     \<lparr> cfgName = ''reviewer'', cfgDescription = ''Reviews code'', cfgInstructions = ''Be brief.'',
       cfgTools = tools, cfgModel = ''claude-3-5-sonnet-20241022'', cfgMaxTokens = 0 \<rparr>"

definition demo_json :: "string \<Rightarrow> string \<Rightarrow> string" where
  "demo_json tool1 tool2 =
     ''{\<newline>  \"name\": \"reviewer\",\<newline>  \"description\": \"Reviews code\",\<newline>''
     @ ''  \"instructions\": \"Be brief.\",\<newline>  \"tools\": [\<newline>    \"'' @ tool1
     @ ''\",\<newline>    \"'' @ tool2
     @ ''\"\<newline>  ],\<newline>  \"model\": \"claude-3-5-sonnet-20241022\"\<newline>}''"

definition demo_MarshalIndent :: "AgentConfig \<Rightarrow> error + string" where
  "demo_MarshalIndent cfg =
     (if cfg = demo_config [''read'', ''shell''] then Inr (demo_json ''read'' ''shell'')
      else if cfg = demo_config [''shell'', ''read''] then Inr (demo_json ''shell'' ''read'')
      else Inl (LibError ''json: unsupported value''))"

definition demo_Unmarshal :: "string \<Rightarrow> error + AgentConfig" where
  "demo_Unmarshal data =
     (if data = demo_json ''read'' ''shell'' @ ''\<newline>'' then Inr (demo_config [''read'', ''shell''])
      else if data = demo_json ''shell'' ''read'' @ ''\<newline>'' then Inr (demo_config [''shell'', ''read''])
      else Inl (LibError ''unexpected end of JSON input''))"

definition demo_target :: "string \<Rightarrow> string \<Rightarrow> string \<Rightarrow> Target" where
  "demo_target name platform output =
     \<lparr> tgtName = name, tgtPlatform = platform, tgtPriority = ''p1'', tgtOutput = output,
       tgtConfig = Map.empty \<rparr>"

definition demo_deployment :: Deployment where
  "demo_deployment =
     \<lparr> depSchema = [], depTeam = ''stats-team'',
       depTargets = [demo_target ''local'' ''agentkit-local'' ''out1'',
                     demo_target ''edge'' ''cloud-run'' ''out2'',
                     demo_target ''cli'' ''kiro-cli'' ''out3''] \<rparr>"

definition demo_lib :: "memfs golib" where
  "demo_lib =
     \<lparr> strings_ToLower = demo_ToLower,
       strings_ToUpper = demo_ToUpper,
       strings_TrimSpace = demo_TrimSpace,
       json_MarshalIndent = demo_MarshalIndent,
       json_MarshalIndent_Config = (\<lambda>cfg. Inr ''{}''),
       json_Unmarshal = demo_Unmarshal,
       json_Unmarshal_Deployment =
         (\<lambda>data. if data = ''{\"team\": \"stats-team\"}'' then Inr demo_deployment
                  else Inl (LibError ''unexpected end of JSON input'')),
       filepath_Dir = demo_Dir,
       filepath_Join = demo_Join,
       os_MkdirAll = demo_MkdirAll,
       os_WriteFile = demo_WriteFile,
       os_ReadFile = demo_ReadFile,
       core_DefaultDirMode = 7 * 64 + 5 * 8 + 5,
       core_DefaultFileMode = 6 * 64,
       agents_ReadCanonicalDir =
         (\<lambda>dir fs. if dir \<in> {''spec'', ''proj/agents''} then Inr [demo_agent]
                    else Inl (LibError ''no such file or directory'')),
       awsagentcore_WriteCDKProject = (\<lambda>teamName agents outputDir config fs. (None, fs)),
       flag_Usage = ''Usage of genagents:\<newline>'' \<rparr>"

text \<open>
  The example registry holds the agentkit adapter and a \<open>kiro\<close> adapter that writes the
  agent's instructions; the example world starts with an empty file system.
\<close>

definition demo_registry :: "memfs registry" where
  "demo_registry =
     Register ''kiro''
       \<lparr> adFileExtension = ''.json'',
         adWriteFile = (\<lambda>agent path. onFiles (demo_WriteFile path (Instructions agent) (6 * 64))) \<rparr>
       (Register agentkitName (agentkitAdapter demo_lib) [])"

definition demo_world :: "memfs \<Rightarrow> memfs world" where
  "demo_world fs = \<lparr> files = fs, stdout = [], stderr = [], ranges = [] \<rparr>"

definition demo_flags :: "string \<Rightarrow> flags" where
  "demo_flags targets =
     \<lparr> flagSpec = ''spec'', flagOutput = [], flagFormat = ''claude'', flagTargets = targets,
       flagProject = [], flagPriority = [], flagVerbose = False \<rparr>"

text \<open>
  An agent whose name is the single byte \<open>0xFF\<close>, which is not valid UTF-8, and a library
  whose encoder writes such a byte as the escape of the replacement character U+FFFD, as
  \<open>encoding/json\<close> documents; its decoder reads that escape as the three bytes of U+FFFD.
\<close>

definition demo_invalid_name_agent :: Agent where
  "demo_invalid_name_agent = demo_agent\<lparr>Name := [CHR 0xFF]\<rparr>"

definition demo_replaced_json :: string where
  "demo_replaced_json =
     ''{\<newline>  \"name\": \"'' @ [CHR 0x5C] @ ''ufffd\",\<newline>  \"description\": \"Reviews code\",\<newline>''
     @ ''  \"instructions\": \"Be brief.\",\<newline>  \"tools\": [\<newline>    \"read\",\<newline>    \"shell\"\<newline>  ],\<newline>''
     @ ''  \"model\": \"claude-3-5-sonnet-20241022\"\<newline>}''"

definition demo_replacing_lib :: "memfs golib" where
  "demo_replacing_lib =
     demo_lib
       \<lparr> json_MarshalIndent :=
           (\<lambda>cfg. if cfg = (demo_config [''read'', ''shell''])\<lparr>cfgName := [CHR 0xFF]\<rparr>
                   then Inr demo_replaced_json
                   else Inl (LibError ''json: unsupported value'')),
         json_Unmarshal :=
           (\<lambda>data. if data = demo_replaced_json @ ''\<newline>''
                    then Inr ((demo_config [''read'', ''shell''])
                                \<lparr>cfgName := [CHR 0xEF, CHR 0xBF, CHR 0xBD]\<rparr>)
                    else Inl (LibError ''unexpected end of JSON input'')) \<rparr>"

section \<open>Properties of map iteration\<close>

lemma mset_remove_nth:
  assumes "i < length xs"
  shows "mset xs = add_mset (xs ! i) (mset (take i xs @ drop (Suc i) xs))"
proof -
  have "xs = take i xs @ xs ! i # drop (Suc i) xs"
    using assms by (rule id_take_nth_drop)
  then have "mset xs = mset (take i xs @ xs ! i # drop (Suc i) xs)" by simp
  then show ?thesis by simp
qed

lemma mset_go_range: "mset (go_range cs xs) = mset xs"
proof (induction cs arbitrary: xs)
  case Nil
  show ?case by simp
next
  case (Cons c cs)
  show ?case
  proof (cases "xs = []")
    case True
    then show ?thesis by simp
  next
    case False
    define i where "i = c mod length xs"
    have i: "i < length xs" using False by (simp add: i_def)
    have "mset xs = add_mset (xs ! i) (mset (take i xs @ drop (Suc i) xs))"
      using i by (rule mset_remove_nth)
    with False Cons.IH [of "take i xs @ drop (Suc i) xs"] show ?thesis
      by (simp add: i_def Let_def)
  qed
qed

lemma set_go_range: "set (go_range cs xs) = set xs"
  using mset_go_range [of cs xs] by (metis set_mset_mset)

lemma length_go_range: "length (go_range cs xs) = length xs"
  using mset_go_range [of cs xs] by (metis size_mset)

lemma distinct_go_range: "distinct (go_range cs xs) = distinct xs"
  using mset_go_range [of cs xs] by (metis mset_eq_imp_distinct_iff)

lemma go_range_any_order: "mset ys = mset xs \<Longrightarrow> \<exists>cs. go_range cs xs = ys"
proof (induction ys arbitrary: xs)
  case Nil
  then have "xs = []" by simp
  then have "go_range [] xs = []" by simp
  then show ?case by blast
next
  case (Cons y ys)
  have "y \<in> set xs" using Cons.prems by (metis list.set_intros(1) set_mset_mset)
  then obtain i where i: "i < length xs" "xs ! i = y" by (auto simp: in_set_conv_nth)
  have ne: "xs \<noteq> []" using i by auto
  have "mset xs = add_mset (xs ! i) (mset (take i xs @ drop (Suc i) xs))"
    using i(1) by (rule mset_remove_nth)
  then have "add_mset y (mset ys) = add_mset y (mset (take i xs @ drop (Suc i) xs))"
    using Cons.prems i(2) by simp
  then have "mset ys = mset (take i xs @ drop (Suc i) xs)" by simp
  from Cons.IH [OF this] obtain cs where cs: "go_range cs (take i xs @ drop (Suc i) xs) = ys"
    by blast
  have "go_range (i # cs) xs = y # ys"
    using ne i cs by (simp add: Let_def)
  then show ?case by blast
qed

section \<open>Properties of the agentkit adapter\<close>

lemma fold_append_fst: "fold (\<lambda>(tool, _) tools. tools @ [tool]) xs acc = acc @ map fst xs"
  by (induction xs arbitrary: acc) (auto simp: case_prod_unfold)

lemma fold_append_map: "fold (\<lambda>x acc. acc @ [f x]) xs acc = acc @ map f xs"
  by (induction xs arbitrary: acc) auto

lemma addTool_update: "addTool lib tool ts = AList.update (destTool lib tool) True ts"
  by (simp add: addTool_def destTool_def split: option.splits)

lemma keys_fold_addTool:
  "fst ` set (fold (addTool lib) tools ts) = destTool lib ` set tools \<union> fst ` set ts"
  by (induction tools arbitrary: ts) (auto simp: addTool_update AList.dom_update)

lemma distinct_fold_addTool:
  "distinct (map fst ts) \<Longrightarrow> distinct (map fst (fold (addTool lib) tools ts))"
  by (induction tools arbitrary: ts) (auto simp: addTool_update AList.distinct_update)

lemma cfgTools_agentToConfig:
  "cfgTools (agentToConfig lib order agent) = map fst (go_range order (toolSetOf lib (Tools agent)))"
  by (simp add: agentToConfig_def fold_append_fst)

lemma mset_cfgTools:
  "mset (cfgTools (agentToConfig lib order agent)) = mset (map fst (toolSetOf lib (Tools agent)))"
  by (simp add: cfgTools_agentToConfig mset_go_range)

lemma set_cfgTools:
  "set (cfgTools (agentToConfig lib order agent)) = destTool lib ` set (Tools agent)"
  using mset_cfgTools [of lib order agent, THEN arg_cong, of set_mset] keys_fold_addTool [of lib "Tools agent" "[]"]
  by (simp add: toolSetOf_def)

lemma distinct_cfgTools: "distinct (cfgTools (agentToConfig lib order agent))"
proof -
  have "distinct (map fst (toolSetOf lib (Tools agent)))"
    unfolding toolSetOf_def by (rule distinct_fold_addTool) simp
  then show ?thesis
    using mset_cfgTools [of lib order agent] by (metis mset_eq_imp_distinct_iff)
qed


lemma Tools_configToAgent: "Tools (configToAgent order cfg) = map (reverseTool order) (cfgTools cfg)"
  by (simp add: configToAgent_def fold_append_map)

lemma dom_fold_rev: "dom (fold (\<lambda>(k, v) r. r(v \<mapsto> k)) xs r0) = snd ` set xs \<union> dom r0"
  by (induction xs arbitrary: r0) (auto simp: case_prod_unfold)

lemma dom_reverseToolMapping: "dom (reverseToolMapping order) = snd ` set toolMapping"
  by (simp add: reverseToolMapping_def dom_fold_rev set_go_range)

lemma fold_rev_sound:
  "fold (\<lambda>(k, v) r. r(v \<mapsto> k)) xs r0 d = Some k \<Longrightarrow> (k, d) \<in> set xs \<or> r0 d = Some k"
proof (induction xs arbitrary: r0)
  case Nil
  then show ?case by simp
next
  case (Cons p xs)
  obtain a b where p: "p = (a, b)" by (cases p)
  from Cons.prems have "fold (\<lambda>(k, v) r. r(v \<mapsto> k)) xs (r0(b \<mapsto> a)) d = Some k"
    by (simp add: p del: fun_upd_apply)
  from Cons.IH [OF this] have "(k, d) \<in> set xs \<or> (r0(b \<mapsto> a)) d = Some k" .
  then show ?case by (auto simp: p split: if_splits)
qed

lemma reverseToolMapping_sound:
  "reverseToolMapping order d = Some k \<Longrightarrow> (k, d) \<in> set toolMapping"
  using fold_rev_sound [of "go_range order toolMapping" Map.empty d k]
  by (simp add: reverseToolMapping_def set_go_range)

lemma distinct_keys_toolMapping: "distinct (map fst toolMapping)"
  by (simp add: toolMapping_def)


lemma forward_reverseTool:
  assumes "d \<in> snd ` set toolMapping"
  shows "map_of toolMapping (reverseTool order d) = Some d"
proof -
  from assms have "d \<in> dom (reverseToolMapping order)" by (simp add: dom_reverseToolMapping)
  then obtain k where k: "reverseToolMapping order d = Some k" by blast
  then have "(k, d) \<in> set toolMapping" by (rule reverseToolMapping_sound)
  then have "map_of toolMapping k = Some d"
    using distinct_keys_toolMapping by simp
  with k show ?thesis by (simp add: reverseTool_def)
qed







section \<open>Parse, Marshal and WriteFile\<close>

text \<open>
  C7. When \<open>json.Unmarshal\<close> rejects the input, \<open>Parse\<close> returns a \<open>ParseError\<close> whose
  format is \<open>agentkit\<close> and whose cause is the decoder's error; when the decoder accepts
  it, \<open>Parse\<close> returns the agent built from the decoded config and no error. \<open>Parse\<close> is a
  total function of the input and touches nothing else.
\<close>

theorem Parse_error_or_agent:
  "(json_Unmarshal lib data = Inl err
      \<longrightarrow> Parse lib order data = Inl (ParseError ''agentkit'' err))
   \<and> (json_Unmarshal lib data = Inr cfg
      \<longrightarrow> Parse lib order data = Inr (configToAgent order cfg))"
  by (simp add: Parse_def)

theorem Parse_error_or_agent_witness:
  "json_Unmarshal demo_lib ''{\"name\":'' = Inl (LibError ''unexpected end of JSON input'')
   \<and> Parse demo_lib [] ''{\"name\":''
       = Inl (ParseError ''agentkit'' (LibError ''unexpected end of JSON input''))
   \<and> json_Unmarshal demo_lib (demo_json ''read'' ''shell'' @ ''\<newline>'')
       = Inr (demo_config [''read'', ''shell''])
   \<and> Parse demo_lib [] (demo_json ''read'' ''shell'' @ ''\<newline>'')
       = Inr (configToAgent [] (demo_config [''read'', ''shell'']))"
proof -
  have bad: "json_Unmarshal demo_lib ''{\"name\":'' = Inl (LibError ''unexpected end of JSON input'')"
    by (simp add: demo_lib_def demo_Unmarshal_def demo_json_def)
  have good: "json_Unmarshal demo_lib (demo_json ''read'' ''shell'' @ ''\<newline>'')
       = Inr (demo_config [''read'', ''shell''])"
    by (simp add: demo_lib_def demo_Unmarshal_def)
  from bad good
    Parse_error_or_agent [of demo_lib "''{\"name\":''" "LibError ''unexpected end of JSON input''" "[]"]
    Parse_error_or_agent [of demo_lib "demo_json ''read'' ''shell'' @ ''\<newline>''" _ "[]"
      "demo_config [''read'', ''shell'']"]
  show ?thesis by blast
qed

text \<open>
  C8. Once the agent is marshaled, \<open>WriteFile\<close> calls \<open>os.MkdirAll\<close> on the parent
  directory of the path with \<open>core.DefaultDirMode\<close>, and then, on the file system that
  call leaves, \<open>os.WriteFile\<close> with the marshaled bytes and \<open>core.DefaultFileMode\<close>. A
  failure of either call is returned as a \<open>WriteError\<close> with the path and the cause, and a
  failure of the first prevents the second.
\<close>

theorem WriteFile_mkdir_then_write:
  assumes "Marshal lib order agent = Inr data"
    and "os_MkdirAll lib (filepath_Dir lib path) (core_DefaultDirMode lib) fs = (r1, fs1)"
    and "os_WriteFile lib path data (core_DefaultFileMode lib) fs1 = (r2, fs2)"
  shows "WriteFile lib order agent path fs =
           (case r1 of
              Some err \<Rightarrow> (Some (WriteError path err), fs1)
            | None \<Rightarrow>
                (case r2 of
                   Some err \<Rightarrow> (Some (WriteError path err), fs2)
                 | None \<Rightarrow> (None, fs2)))"
  using assms by (simp add: WriteFile_def split: option.splits)

lemma demo_Marshal: "Marshal demo_lib [] demo_agent = Inr (demo_json ''read'' ''shell'' @ ''\<newline>'')"
  by (simp add: Marshal_def agentToConfig_def toolSetOf_def addTool_def toolMapping_def
      modelMapping_def demo_agent_def demo_lib_def demo_MarshalIndent_def demo_config_def)

theorem WriteFile_mkdir_then_write_witness:
  "Marshal demo_lib [] demo_agent = Inr (demo_json ''read'' ''shell'' @ ''\<newline>'')
   \<and> os_MkdirAll demo_lib (filepath_Dir demo_lib ''out/agents/reviewer.json'')
        (core_DefaultDirMode demo_lib) \<lparr>dirs = [], regular = []\<rparr>
       = (None, \<lparr>dirs = [(''out/agents'', 493)], regular = []\<rparr>)
   \<and> os_WriteFile demo_lib ''out/agents/reviewer.json'' (demo_json ''read'' ''shell'' @ ''\<newline>'')
        (core_DefaultFileMode demo_lib) \<lparr>dirs = [(''out/agents'', 493)], regular = []\<rparr>
       = (None, \<lparr>dirs = [(''out/agents'', 493)],
                  regular = [(''out/agents/reviewer.json'',
                              demo_json ''read'' ''shell'' @ ''\<newline>'', 384)]\<rparr>)
   \<and> WriteFile demo_lib [] demo_agent ''out/agents/reviewer.json'' \<lparr>dirs = [], regular = []\<rparr>
       = (None, \<lparr>dirs = [(''out/agents'', 493)],
                  regular = [(''out/agents/reviewer.json'',
                              demo_json ''read'' ''shell'' @ ''\<newline>'', 384)]\<rparr>)"
proof -
  have mk: "os_MkdirAll demo_lib (filepath_Dir demo_lib ''out/agents/reviewer.json'')
        (core_DefaultDirMode demo_lib) \<lparr>dirs = [], regular = []\<rparr>
       = (None, \<lparr>dirs = [(''out/agents'', 493)], regular = []\<rparr>)"
    by (simp add: demo_lib_def demo_MkdirAll_def demo_Dir_def)
  have wr: "os_WriteFile demo_lib ''out/agents/reviewer.json'' (demo_json ''read'' ''shell'' @ ''\<newline>'')
        (core_DefaultFileMode demo_lib) \<lparr>dirs = [(''out/agents'', 493)], regular = []\<rparr>
       = (None, \<lparr>dirs = [(''out/agents'', 493)],
                  regular = [(''out/agents/reviewer.json'',
                              demo_json ''read'' ''shell'' @ ''\<newline>'', 384)]\<rparr>)"
    by (simp add: demo_lib_def demo_WriteFile_def demo_Dir_def)
  from WriteFile_mkdir_then_write [OF demo_Marshal mk wr] demo_Marshal mk wr
  show ?thesis by simp
qed

text \<open>
  C9. When \<open>Marshal\<close> fails, \<open>WriteFile\<close> returns that error, which is a \<open>MarshalError\<close>
  of format \<open>agentkit\<close>, and leaves the file system as it found it: neither
  \<open>os.MkdirAll\<close> nor \<open>os.WriteFile\<close> is called.
\<close>

theorem WriteFile_marshal_failure:
  assumes "Marshal lib order agent = Inl err"
  shows "WriteFile lib order agent path fs = (Some err, fs)
         \<and> (\<exists>cause. err = MarshalError ''agentkit'' cause)"
  using assms by (auto simp: WriteFile_def Marshal_def split: sum.splits)

theorem WriteFile_marshal_failure_witness:
  "Marshal demo_lib [] (demo_agent\<lparr>Name := ''other''\<rparr>)
     = Inl (MarshalError ''agentkit'' (LibError ''json: unsupported value''))
   \<and> WriteFile demo_lib [] (demo_agent\<lparr>Name := ''other''\<rparr>) ''out/agents/other.json''
        \<lparr>dirs = [], regular = []\<rparr>
     = (Some (MarshalError ''agentkit'' (LibError ''json: unsupported value'')),
        \<lparr>dirs = [], regular = []\<rparr>)"
proof -
  have m: "Marshal demo_lib [] (demo_agent\<lparr>Name := ''other''\<rparr>)
     = Inl (MarshalError ''agentkit'' (LibError ''json: unsupported value''))"
    by (simp add: Marshal_def agentToConfig_def toolSetOf_def addTool_def toolMapping_def
      modelMapping_def demo_agent_def demo_lib_def demo_MarshalIndent_def demo_config_def)
  from WriteFile_marshal_failure [OF m, of "''out/agents/other.json''" "\<lparr>dirs = [], regular = []\<rparr>"] m
  show ?thesis by simp
qed

section \<open>Round trip\<close>

lemma destTool_known:
  "tool \<in> fst ` set toolMapping \<Longrightarrow> map_of toolMapping tool = Some (destTool lib tool)"
proof -
  assume "tool \<in> fst ` set toolMapping"
  then obtain d where "map_of toolMapping tool = Some d"
    by (metis domD dom_map_of_conv_image_fst)
  then show ?thesis by (simp add: destTool_def)
qed

lemma cfgModel_agentToConfig:
  "map_of modelMapping (Model agent) = Some model \<Longrightarrow> cfgModel (agentToConfig lib order agent) = model"
  by (simp add: agentToConfig_def)

lemma forward_roundtrip_tools:
  assumes "set (Tools agent) \<subseteq> fst ` set toolMapping"
  shows "map (map_of toolMapping) (Tools (configToAgent order2 (agentToConfig lib order1 agent)))
           = map Some (cfgTools (agentToConfig lib order1 agent))"
proof -
  have "map_of toolMapping (reverseTool order2 d) = Some d"
    if "d \<in> set (cfgTools (agentToConfig lib order1 agent))" for d
  proof -
    from that obtain t where t: "t \<in> set (Tools agent)" "d = destTool lib t"
      by (auto simp: set_cfgTools)
    from t(1) assms have "t \<in> fst ` set toolMapping" by blast
    from destTool_known [OF this, of lib] t(2) have "map_of toolMapping t = Some d" by simp
    then have "d \<in> snd ` set toolMapping"
      by (metis map_of_SomeD snd_conv image_eqI)
    then show ?thesis by (rule forward_reverseTool)
  qed
  then show ?thesis by (simp add: Tools_configToAgent)
qed

text \<open>
  C1, as amended. Let every tool of the agent be a key of \<open>toolMapping\<close> and its model a
  key of \<open>modelMapping\<close>, and let \<open>encoding/json\<close> encode the config built from the agent
  and decode the marshaled bytes back to that same config. Then \<open>Marshal\<close> succeeds, and
  parsing the marshaled bytes yields an agent with the same name, description and
  instructions; its model is the agentkit identifier that \<open>modelMapping\<close> gives for the
  agent's model, which differs from the agent's model; and its tools list has exactly one
  entry per destination identifier of the agent's tools, each entry a key that
  \<open>toolMapping\<close> sends to that identifier.
\<close>

theorem roundtrip_up_to_mapping:
  assumes "set (Tools agent) \<subseteq> fst ` set toolMapping"
    and "map_of modelMapping (Model agent) = Some model"
    and "json_MarshalIndent lib (agentToConfig lib order1 agent) = Inr bytes"
    and "json_Unmarshal lib (bytes @ ''\<newline>'') = Inr (agentToConfig lib order1 agent)"
  shows "Marshal lib order1 agent = Inr (bytes @ ''\<newline>'')
         \<and> (\<exists>agent'. Parse lib order2 (bytes @ ''\<newline>'') = Inr agent'
               \<and> Name agent' = Name agent
               \<and> Description agent' = Description agent
               \<and> Instructions agent' = Instructions agent
               \<and> Model agent' = model \<and> model \<noteq> Model agent
               \<and> map_of toolMapping ` set (Tools agent') = map_of toolMapping ` set (Tools agent)
               \<and> distinct (map (map_of toolMapping) (Tools agent')))"
proof -
  let ?cfg = "agentToConfig lib order1 agent"
  let ?agent' = "configToAgent order2 ?cfg"
  have marshal: "Marshal lib order1 agent = Inr (bytes @ ''\<newline>'')"
    using assms(3) by (simp add: Marshal_def)
  have parse: "Parse lib order2 (bytes @ ''\<newline>'') = Inr ?agent'"
    using assms(4) by (simp add: Parse_def)
  have fields: "Name ?agent' = Name agent \<and> Description ?agent' = Description agent
      \<and> Instructions ?agent' = Instructions agent"
    by (simp add: configToAgent_def agentToConfig_def)
  have model: "Model ?agent' = model"
    using assms(2) by (simp add: configToAgent_def agentToConfig_def)
  have neq: "model \<noteq> Model agent"
    using assms(2) by (auto simp: modelMapping_def split: if_splits)
  have fwd: "map (map_of toolMapping) (Tools ?agent') = map Some (cfgTools ?cfg)"
    using assms(1) by (rule forward_roundtrip_tools)
  have dist: "distinct (map (map_of toolMapping) (Tools ?agent'))"
    unfolding fwd by (simp add: distinct_map distinct_cfgTools)
  have "set (map (map_of toolMapping) (Tools ?agent')) = Some ` destTool lib ` set (Tools agent)"
    unfolding fwd by (simp add: set_cfgTools)
  moreover have "Some ` destTool lib ` set (Tools agent) = map_of toolMapping ` set (Tools agent)"
  proof -
    have "(\<lambda>t. Some (destTool lib t)) ` set (Tools agent) = map_of toolMapping ` set (Tools agent)"
    proof (rule image_cong)
      show "set (Tools agent) = set (Tools agent)" ..
    next
      fix t assume "t \<in> set (Tools agent)"
      with assms(1) have "t \<in> fst ` set toolMapping" by blast
      then show "Some (destTool lib t) = map_of toolMapping t"
        by (simp add: destTool_known [of t lib])
    qed
    then show ?thesis by (simp add: image_image)
  qed
  ultimately have img: "map_of toolMapping ` set (Tools ?agent') = map_of toolMapping ` set (Tools agent)"
    by simp
  from marshal parse fields model neq img dist show ?thesis by blast
qed

theorem roundtrip_up_to_mapping_witness:
  "set (Tools demo_agent) \<subseteq> fst ` set toolMapping
   \<and> map_of modelMapping (Model demo_agent) = Some ''claude-3-5-sonnet-20241022''
   \<and> json_MarshalIndent demo_lib (agentToConfig demo_lib [] demo_agent)
       = Inr (demo_json ''read'' ''shell'')
   \<and> json_Unmarshal demo_lib (demo_json ''read'' ''shell'' @ ''\<newline>'')
       = Inr (agentToConfig demo_lib [] demo_agent)
   \<and> Marshal demo_lib [] demo_agent = Inr (demo_json ''read'' ''shell'' @ ''\<newline>'')
   \<and> (\<exists>agent'. Parse demo_lib [8] (demo_json ''read'' ''shell'' @ ''\<newline>'') = Inr agent'
         \<and> Name agent' = Name demo_agent
         \<and> Description agent' = Description demo_agent
         \<and> Instructions agent' = Instructions demo_agent
         \<and> Model agent' = ''claude-3-5-sonnet-20241022''
         \<and> map_of toolMapping ` set (Tools agent') = map_of toolMapping ` set (Tools demo_agent)
         \<and> distinct (map (map_of toolMapping) (Tools agent')))"
proof -
  have h1: "set (Tools demo_agent) \<subseteq> fst ` set toolMapping"
    by (simp add: demo_agent_def toolMapping_def)
  have h2: "map_of modelMapping (Model demo_agent) = Some ''claude-3-5-sonnet-20241022''"
    by (simp add: demo_agent_def modelMapping_def)
  have h3: "json_MarshalIndent demo_lib (agentToConfig demo_lib [] demo_agent)
       = Inr (demo_json ''read'' ''shell'')"
    by (simp add: agentToConfig_def toolSetOf_def addTool_def toolMapping_def
      modelMapping_def demo_agent_def demo_lib_def demo_MarshalIndent_def demo_config_def)
  have h4: "json_Unmarshal demo_lib (demo_json ''read'' ''shell'' @ ''\<newline>'')
       = Inr (agentToConfig demo_lib [] demo_agent)"
    by (simp add: agentToConfig_def toolSetOf_def addTool_def toolMapping_def
      modelMapping_def demo_agent_def demo_lib_def demo_Unmarshal_def demo_config_def)
  from roundtrip_up_to_mapping [OF h1 h2 h3 h4, of "[8]"] h1 h2 h3 h4
  show ?thesis by blast
qed

text \<open>
  The condition on \<open>encoding/json\<close> cannot be dropped. With a library that replaces an
  invalid UTF-8 byte on encoding, the agent named by the byte \<open>0xFF\<close> is marshaled and
  parsed without error, and comes back named by the three bytes of U+FFFD.
\<close>

lemma roundtrip_invalid_utf8_name:
  "Marshal demo_replacing_lib [] demo_invalid_name_agent = Inr (demo_replaced_json @ ''\<newline>'')
   \<and> (\<exists>agent'. Parse demo_replacing_lib [] (demo_replaced_json @ ''\<newline>'') = Inr agent'
         \<and> Name agent' = [CHR 0xEF, CHR 0xBF, CHR 0xBD]
         \<and> Name agent' \<noteq> Name demo_invalid_name_agent)"
proof -
  have m: "Marshal demo_replacing_lib [] demo_invalid_name_agent
             = Inr (demo_replaced_json @ ''\<newline>'')"
    by (simp add: Marshal_def agentToConfig_def toolSetOf_def addTool_def toolMapping_def
      modelMapping_def demo_invalid_name_agent_def demo_agent_def demo_replacing_lib_def
      demo_lib_def demo_config_def)
  have p: "Parse demo_replacing_lib [] (demo_replaced_json @ ''\<newline>'')
             = Inr (configToAgent [] ((demo_config [''read'', ''shell''])
                                        \<lparr>cfgName := [CHR 0xEF, CHR 0xBF, CHR 0xBD]\<rparr>))"
    by (simp add: Parse_def demo_replacing_lib_def demo_lib_def)
  have n: "Name (configToAgent [] ((demo_config [''read'', ''shell''])
                                     \<lparr>cfgName := [CHR 0xEF, CHR 0xBF, CHR 0xBD]\<rparr>))
             = [CHR 0xEF, CHR 0xBF, CHR 0xBD]"
    by (simp add: configToAgent_def)
  have d: "[CHR 0xEF, CHR 0xBF, CHR 0xBD] \<noteq> Name demo_invalid_name_agent"
    by (simp add: demo_invalid_name_agent_def)
  from m p n d show ?thesis by simp
qed

theorem roundtrip_not_exact:
  "set (Tools demo_agent) \<subseteq> fst ` set toolMapping
   \<and> Model demo_agent \<in> fst ` set modelMapping
   \<and> Marshal demo_lib [] demo_agent = Inr (demo_json ''read'' ''shell'' @ ''\<newline>'')
   \<and> Parse demo_lib [] (demo_json ''read'' ''shell'' @ ''\<newline>'')
       = Inr (demo_agent\<lparr>Tools := [''Read'', ''Task''], Model := ''claude-3-5-sonnet-20241022''\<rparr>)
   \<and> Parse demo_lib [] (demo_json ''read'' ''shell'' @ ''\<newline>'') \<noteq> Inr demo_agent"
proof -
  have p: "Parse demo_lib [] (demo_json ''read'' ''shell'' @ ''\<newline>'')
       = Inr (demo_agent\<lparr>Tools := [''Read'', ''Task''], Model := ''claude-3-5-sonnet-20241022''\<rparr>)"
    by (simp add: Parse_def demo_lib_def demo_Unmarshal_def configToAgent_def demo_config_def
        reverseTool_def reverseToolMapping_def toolMapping_def demo_agent_def)
  have "set (Tools demo_agent) \<subseteq> fst ` set toolMapping"
    by (simp add: demo_agent_def toolMapping_def)
  moreover have "Model demo_agent \<in> fst ` set modelMapping"
    by (simp add: demo_agent_def modelMapping_def)
  moreover have "Parse demo_lib [] (demo_json ''read'' ''shell'' @ ''\<newline>'') \<noteq> Inr demo_agent"
    unfolding p by (simp add: demo_agent_def)
  ultimately show ?thesis using demo_Marshal p by blast
qed

text \<open>
  C2. The same agent marshaled under two iteration orders of \<open>toolSet\<close> gives two
  different tools lists and two different byte sequences; the same config parsed under two
  iteration orders of \<open>toolMapping\<close> gives \<open>Task\<close> in one and \<open>Bash\<close> in the other for the
  tool \<open>shell\<close>.
\<close>

theorem output_varies_with_iteration_order:
  "cfgTools (agentToConfig demo_lib [0] demo_agent) = [''read'', ''shell'']
   \<and> cfgTools (agentToConfig demo_lib [1] demo_agent) = [''shell'', ''read'']
   \<and> Marshal demo_lib [0] demo_agent \<noteq> Marshal demo_lib [1] demo_agent
   \<and> Tools (configToAgent [] (demo_config [''shell''])) = [''Task'']
   \<and> Tools (configToAgent [8] (demo_config [''shell''])) = [''Bash'']"
proof -
  have a: "cfgTools (agentToConfig demo_lib [0] demo_agent) = [''read'', ''shell'']"
    by (simp add: agentToConfig_def toolSetOf_def addTool_def toolMapping_def demo_agent_def)
  have b: "cfgTools (agentToConfig demo_lib [1] demo_agent) = [''shell'', ''read'']"
    by (simp add: agentToConfig_def toolSetOf_def addTool_def toolMapping_def demo_agent_def)
  have m0: "Marshal demo_lib [0] demo_agent = Inr (demo_json ''read'' ''shell'' @ ''\<newline>'')"
    by (simp add: Marshal_def agentToConfig_def toolSetOf_def addTool_def toolMapping_def
      modelMapping_def demo_agent_def demo_lib_def demo_MarshalIndent_def demo_config_def)
  have m1: "Marshal demo_lib [1] demo_agent = Inr (demo_json ''shell'' ''read'' @ ''\<newline>'')"
    by (simp add: Marshal_def agentToConfig_def toolSetOf_def addTool_def toolMapping_def
      modelMapping_def demo_agent_def demo_lib_def demo_MarshalIndent_def demo_config_def)
  have c: "Marshal demo_lib [0] demo_agent \<noteq> Marshal demo_lib [1] demo_agent"
    unfolding m0 m1 by (simp add: demo_json_def)
  have d: "Tools (configToAgent [] (demo_config [''shell''])) = [''Task'']"
    by (simp add: configToAgent_def demo_config_def reverseTool_def reverseToolMapping_def toolMapping_def)
  have e: "Tools (configToAgent [8] (demo_config [''shell''])) = [''Bash'']"
    by (simp add: configToAgent_def demo_config_def reverseTool_def reverseToolMapping_def toolMapping_def)
  from a b c d e show ?thesis by blast
qed

section \<open>The genagents command\<close>

lemma sublist_strings_Join: "x \<in> set xs \<Longrightarrow> sublist x (strings_Join xs sep)"
proof (induction xs sep rule: strings_Join.induct)
  case (1 sep)
  then show ?case by simp
next
  case (2 y sep)
  then show ?case by simp
next
  case (3 y z zs sep)
  show ?case
  proof (cases "x = y")
    case True
    have "sublist y ([] @ y @ (sep @ strings_Join (z # zs) sep))" by (rule sublist_appendI)
    with True show ?thesis by simp
  next
    case False
    with "3.prems" have "x \<in> set (z # zs)" by simp
    then have "sublist x (strings_Join (z # zs) sep)" by (rule "3.IH")
    then obtain ps ss where "strings_Join (z # zs) sep = ps @ x @ ss"
      by (auto simp: sublist_def)
    then have "strings_Join (y # z # zs) sep = (y @ sep @ ps) @ x @ ss" by simp
    then show ?thesis unfolding sublist_def by blast
  qed
qed

lemma registered_name_listed:
  "GetAdapter reg name = Some adapter \<Longrightarrow> name \<in> set (AdapterNames reg)"
  by (auto simp: GetAdapter_def AdapterNames_def dest: map_of_SomeD intro: rev_image_eqI)

text \<open>
  C6, as amended. For a format that is not in the registry, \<open>generateAgents\<close> first calls
  \<open>os.MkdirAll\<close> on the output directory. If that call fails, the error returned is the
  directory-creation error. Otherwise the error returned carries the requested format and
  the registered adapter names joined by a comma and a space, in which every registered name
  occurs. In both cases the call fails and its only effect on the file system is that of
  \<open>os.MkdirAll\<close>: no adapter is asked to write a file, and nothing is printed.
\<close>

theorem generateAgents_unknown_format:
  assumes "GetAdapter reg format = None"
    and "os_MkdirAll lib outputDir mode_0755 (files w) = (r, fs1)"
  shows "generateAgents lib reg agentList format outputDir verbose w =
           (Some (case r of
                    Some err \<Rightarrow> Errorf ''failed to create output directory: %w'' [E err]
                  | None \<Rightarrow>
                      Errorf ''unknown format %q (available: %s)''
                        [S format, S (strings_Join (AdapterNames reg) '', '')]),
            w\<lparr>files := fs1\<rparr>)
         \<and> (\<forall>name adapter. GetAdapter reg name = Some adapter
               \<longrightarrow> sublist name (strings_Join (AdapterNames reg) '', ''))"
proof
  show "generateAgents lib reg agentList format outputDir verbose w =
           (Some (case r of
                    Some err \<Rightarrow> Errorf ''failed to create output directory: %w'' [E err]
                  | None \<Rightarrow>
                      Errorf ''unknown format %q (available: %s)''
                        [S format, S (strings_Join (AdapterNames reg) '', '')]),
            w\<lparr>files := fs1\<rparr>)"
    using assms by (simp add: generateAgents_def onFiles_def split: option.splits)
next
  show "\<forall>name adapter. GetAdapter reg name = Some adapter
               \<longrightarrow> sublist name (strings_Join (AdapterNames reg) '', '')"
    by (blast intro: sublist_strings_Join registered_name_listed)
qed

lemma demo_AdapterNames: "AdapterNames demo_registry = [''agentkit'', ''kiro'']"
  by (simp add: AdapterNames_def demo_registry_def Register_def agentkitName_def)

lemma demo_GetAdapter_nope: "GetAdapter demo_registry ''nope'' = None"
  by (simp add: GetAdapter_def demo_registry_def Register_def agentkitName_def)

theorem generateAgents_unknown_format_witness:
  "GetAdapter demo_registry ''nope'' = None
   \<and> os_MkdirAll demo_lib ''out'' mode_0755 (files (demo_world \<lparr>dirs = [], regular = []\<rparr>))
       = (None, \<lparr>dirs = [(''out'', 493)], regular = []\<rparr>)
   \<and> generateAgents demo_lib demo_registry [demo_agent] ''nope'' ''out'' False
        (demo_world \<lparr>dirs = [], regular = []\<rparr>)
       = (Some (Errorf ''unknown format %q (available: %s)'' [S ''nope'', S ''agentkit, kiro'']),
          demo_world \<lparr>dirs = [(''out'', 493)], regular = []\<rparr>)"
proof -
  have mk: "os_MkdirAll demo_lib ''out'' mode_0755 (files (demo_world \<lparr>dirs = [], regular = []\<rparr>))
       = (None, \<lparr>dirs = [(''out'', 493)], regular = []\<rparr>)"
    by (simp add: demo_lib_def demo_MkdirAll_def demo_world_def mode_0755_def)
  from generateAgents_unknown_format [OF demo_GetAdapter_nope mk, of "[demo_agent]" False]
    demo_GetAdapter_nope mk
  show ?thesis by (simp add: demo_AdapterNames demo_world_def)
qed

theorem unknown_format_error_not_guaranteed:
  "GetAdapter demo_registry ''nope'' = None
   \<and> generateAgents demo_lib demo_registry [demo_agent] ''nope'' ''out'' False
        (demo_world \<lparr>dirs = [], regular = [(''out'', [], 420)]\<rparr>)
       = (Some (Errorf ''failed to create output directory: %w'' [E (LibError ''not a directory'')]),
          demo_world \<lparr>dirs = [], regular = [(''out'', [], 420)]\<rparr>)"
  by (simp add: demo_GetAdapter_nope generateAgents_def onFiles_def demo_lib_def
      demo_MkdirAll_def demo_world_def)

lemma generateTargets_append:
  "generateTargets lib reg agentList verbose pre w = (Return, w1)
   \<Longrightarrow> generateTargets lib reg agentList verbose (pre @ rest) w
       = generateTargets lib reg agentList verbose rest w1"
proof (induction pre arbitrary: w)
  case Nil
  then show ?case by simp
next
  case (Cons pair pre)
  then show ?case
    by (auto simp: Let_def split: if_splits prod.splits option.splits)
qed

lemma processTargets_append:
  "processTargets lib reg projectDir priorityFilter verbose team agentList pre w = (None, w1)
   \<Longrightarrow> processTargets lib reg projectDir priorityFilter verbose team agentList (pre @ rest) w
       = processTargets lib reg projectDir priorityFilter verbose team agentList rest w1"
proof (induction pre arbitrary: w)
  case Nil
  then show ?case by simp
next
  case (Cons target pre)
  then show ?case
    by (auto simp: Let_def split: if_splits prod.splits option.splits)
qed

text \<open>
  C5, as amended. Targets are processed in order, and the first target whose generation
  fails ends the run: \<open>main\<close> prints an error naming that target's format to standard
  error and exits with status 1, and \<open>runProjectMode\<close> returns an error naming that
  target. The targets before it have been generated; the state left behind is the one the
  failing generation left, so the targets after it are not attempted, whatever they are.
\<close>

theorem generation_stops_at_first_failure:
  assumes "generateTargets lib reg agentList verbose pre w = (Return, w1)"
    and "strings_SplitN2 pair (CHR '':'') = [fmt, dir]"
    and "generateAgents lib reg agentList (strings_TrimSpace lib fmt) (strings_TrimSpace lib dir)
           verbose w1 = (Some err, w2)"
    and "processTargets lib reg projectDir priorityFilter verbose' team agentList' tpre v = (None, v1)"
    and "priorityFilter = [] \<or> tgtPriority target = priorityFilter"
    and "generateForPlatform lib reg team agentList' target
           (filepath_Join lib projectDir (tgtOutput target)) verbose'
           (announceTarget verbose' target (filepath_Join lib projectDir (tgtOutput target)) v1)
           = (Some err', v2)"
  shows "generateTargets lib reg agentList verbose (pre @ pair # post) w =
           (Exit 1, Fprintf_Stderr ''Error generating %s agents: %v\<newline>''
                      [S (strings_TrimSpace lib fmt), E err] w2)
         \<and> processTargets lib reg projectDir priorityFilter verbose' team agentList'
             (tpre @ target # tpost) v =
           (Some (Errorf ''failed to generate %s: %w'' [S (tgtName target), E err']), v2)"
proof
  show "generateTargets lib reg agentList verbose (pre @ pair # post) w =
           (Exit 1, Fprintf_Stderr ''Error generating %s agents: %v\<newline>''
                      [S (strings_TrimSpace lib fmt), E err] w2)"
    using assms(2,3) by (simp add: generateTargets_append [OF assms(1)])
next
  show "processTargets lib reg projectDir priorityFilter verbose' team agentList'
             (tpre @ target # tpost) v =
           (Some (Errorf ''failed to generate %s: %w'' [S (tgtName target), E err']), v2)"
    using assms(5,6) by (auto simp: processTargets_append [OF assms(4)] Let_def)
qed

subsection \<open>Worked runs of the command\<close>

lemmas demo_simps =
  demo_lib_def demo_world_def demo_registry_def Register_def agentkitName_def agentkitAdapter_def
  demo_MkdirAll_def demo_WriteFile_def demo_Dir_def demo_Join_def demo_TrimSpace_def
  demo_MarshalIndent_def demo_config_def demo_agent_def demo_target_def mode_0755_def
  GetAdapter_def AdapterNames_def onFiles_def takeRanges_def firstOrder_def Printf_def
  Fprintf_Stderr_def generateAgents_def WriteFile_def Marshal_def agentToConfig_def
  toolSetOf_def addTool_def toolMapping_def modelMapping_def strings_SplitN2_def

lemma demo_generate_agentkit:
  "generateAgents demo_lib demo_registry [demo_agent] ''agentkit'' ''out1'' False
     (demo_world \<lparr>dirs = [], regular = []\<rparr>)
   = (None,
      \<lparr> files = \<lparr>dirs = [(''out1'', 493)],
                  regular = [(''out1/reviewer.json'', demo_json ''read'' ''shell'' @ ''\<newline>'', 384)]\<rparr>,
        stdout = [(''Generated %d %s agents in %s\<newline>'', [N 1, S ''agentkit'', S ''out1''])],
        stderr = [], ranges = [] \<rparr>)"
  by (simp add: demo_simps Let_def)


lemma demo_generate_nope:
  "generateAgents demo_lib demo_registry [demo_agent] ''nope'' dir False
     \<lparr> files = \<lparr>dirs = ds, regular = []\<rparr>, stdout = out, stderr = [], ranges = [] \<rparr>
   = (Some (Errorf ''unknown format %q (available: %s)'' [S ''nope'', S ''agentkit, kiro'']),
      \<lparr> files = (if map_of ds dir \<noteq> None then \<lparr>dirs = ds, regular = []\<rparr>
                 else \<lparr>dirs = ds @ [(dir, 493)], regular = []\<rparr>),
        stdout = out, stderr = [], ranges = [] \<rparr>)"
  by (simp add: demo_simps Let_def)

theorem later_targets_not_attempted:
  "main demo_lib demo_registry (demo_flags ''nope:out1,agentkit:out2'')
     (demo_world \<lparr>dirs = [], regular = []\<rparr>)
   = (Exit 1,
      \<lparr> files = \<lparr>dirs = [(''out1'', 493)], regular = []\<rparr>,
        stdout = [],
        stderr = [(''Error generating %s agents: %v\<newline>'',
                   [S ''nope'',
                    E (Errorf ''unknown format %q (available: %s)'' [S ''nope'', S ''agentkit, kiro''])])],
        ranges = [] \<rparr>)
   \<and> fst (generateAgents demo_lib demo_registry [demo_agent] ''agentkit'' ''out2'' False
            \<lparr> files = \<lparr>dirs = [(''out1'', 493)], regular = []\<rparr>, stdout = [], stderr = [],
              ranges = [] \<rparr>) = None"
proof -
  have split: "strings_Split ''nope:out1,agentkit:out2'' (CHR '','') = [''nope:out1'', ''agentkit:out2'']"
    by simp
  have gen: "generateAgents demo_lib demo_registry [demo_agent] ''nope'' ''out1'' False
     \<lparr> files = \<lparr>dirs = [], regular = []\<rparr>, stdout = [], stderr = [], ranges = [] \<rparr>
   = (Some (Errorf ''unknown format %q (available: %s)'' [S ''nope'', S ''agentkit, kiro'']),
      \<lparr> files = \<lparr>dirs = [(''out1'', 493)], regular = []\<rparr>,
        stdout = [], stderr = [], ranges = [] \<rparr>)"
    by (simp add: demo_generate_nope)
  have trim: "strings_TrimSpace demo_lib ''nope'' = ''nope''" "strings_TrimSpace demo_lib ''out1'' = ''out1''"
    by (simp_all add: demo_lib_def demo_TrimSpace_def)
  have rd: "agents_ReadCanonicalDir demo_lib ''spec'' (files (demo_world \<lparr>dirs = [], regular = []\<rparr>))
      = Inr [demo_agent]"
    by (simp add: demo_lib_def)
  have loop: "generateTargets demo_lib demo_registry [demo_agent] False
      [''nope:out1'', ''agentkit:out2''] (demo_world \<lparr>dirs = [], regular = []\<rparr>)
   = (Exit 1,
      \<lparr> files = \<lparr>dirs = [(''out1'', 493)], regular = []\<rparr>,
        stdout = [],
        stderr = [(''Error generating %s agents: %v\<newline>'',
                   [S ''nope'',
                    E (Errorf ''unknown format %q (available: %s)'' [S ''nope'', S ''agentkit, kiro''])])],
        ranges = [] \<rparr>)"
    by (simp add: strings_SplitN2_def trim gen Fprintf_Stderr_def demo_world_def Let_def)
  have run: "main demo_lib demo_registry (demo_flags ''nope:out1,agentkit:out2'')
     (demo_world \<lparr>dirs = [], regular = []\<rparr>)
   = (Exit 1,
      \<lparr> files = \<lparr>dirs = [(''out1'', 493)], regular = []\<rparr>,
        stdout = [],
        stderr = [(''Error generating %s agents: %v\<newline>'',
                   [S ''nope'',
                    E (Errorf ''unknown format %q (available: %s)'' [S ''nope'', S ''agentkit, kiro''])])],
        ranges = [] \<rparr>)"
    unfolding main_def demo_flags_def
    by (simp add: rd split loop Let_def del: strings_Split.simps generateTargets.simps)
  have would: "fst (generateAgents demo_lib demo_registry [demo_agent] ''agentkit'' ''out2'' False
            \<lparr> files = \<lparr>dirs = [(''out1'', 493)], regular = []\<rparr>, stdout = [], stderr = [],
              ranges = [] \<rparr>) = None"
    by (simp add: demo_simps Let_def)
  from run would show ?thesis by blast
qed

theorem generation_stops_at_first_failure_witness:
  "generateTargets demo_lib demo_registry [demo_agent] False
      ([''agentkit:out1''] @ ''nope:out2'' # [''kiro:out3'']) (demo_world \<lparr>dirs = [], regular = []\<rparr>)
   = (Exit 1,
      \<lparr> files = \<lparr>dirs = [(''out1'', 493), (''out2'', 493)],
                  regular = [(''out1/reviewer.json'', demo_json ''read'' ''shell'' @ ''\<newline>'', 384)]\<rparr>,
        stdout = [(''Generated %d %s agents in %s\<newline>'', [N 1, S ''agentkit'', S ''out1''])],
        stderr = [(''Error generating %s agents: %v\<newline>'',
                   [S ''nope'',
                    E (Errorf ''unknown format %q (available: %s)'' [S ''nope'', S ''agentkit, kiro''])])],
        ranges = [] \<rparr>)
   \<and> processTargets demo_lib demo_registry ''proj'' [] False ''stats-team'' [demo_agent]
        ([demo_target ''local'' ''agentkit-local'' ''out1'']
           @ demo_target ''edge'' ''cloud-run'' ''out2'' # [demo_target ''cli'' ''kiro-cli'' ''out3''])
        (demo_world \<lparr>dirs = [(''proj'', 493)], regular = []\<rparr>)
   = (Some (Errorf ''failed to generate %s: %w''
              [S ''edge'', E (Errorf ''unsupported platform: %s'' [S ''cloud-run''])]),
      \<lparr> files = \<lparr>dirs = [(''proj'', 493), (''proj/out1'', 493)],
                  regular = [(''proj/out1/config.json'', ''{}\<newline>'', 384)]\<rparr>,
        stdout = [(''Generated agentkit config: %s\<newline>'', [S ''proj/out1/config.json''])],
        stderr = [], ranges = [] \<rparr>)"
proof -
  let ?w1 = "\<lparr> files = \<lparr>dirs = [(''out1'', 493)],
                  regular = [(''out1/reviewer.json'', demo_json ''read'' ''shell'' @ ''\<newline>'', 384)]\<rparr>,
        stdout = [(''Generated %d %s agents in %s\<newline>'', [N 1, S ''agentkit'', S ''out1''])],
        stderr = [], ranges = [] \<rparr>"
  let ?w2 = "\<lparr> files = \<lparr>dirs = [(''out1'', 493), (''out2'', 493)],
                  regular = [(''out1/reviewer.json'', demo_json ''read'' ''shell'' @ ''\<newline>'', 384)]\<rparr>,
        stdout = [(''Generated %d %s agents in %s\<newline>'', [N 1, S ''agentkit'', S ''out1''])],
        stderr = [], ranges = [] \<rparr>"
  let ?v1 = "\<lparr> files = \<lparr>dirs = [(''proj'', 493), (''proj/out1'', 493)],
                  regular = [(''proj/out1/config.json'', ''{}\<newline>'', 384)]\<rparr>,
        stdout = [(''Generated agentkit config: %s\<newline>'', [S ''proj/out1/config.json''])],
        stderr = [], ranges = [] \<rparr>"
  have trim: "strings_TrimSpace demo_lib ''agentkit'' = ''agentkit''"
    "strings_TrimSpace demo_lib ''out1'' = ''out1''"
    "strings_TrimSpace demo_lib ''nope'' = ''nope''"
    "strings_TrimSpace demo_lib ''out2'' = ''out2''"
    by (simp_all add: demo_lib_def demo_TrimSpace_def)
  have h1: "generateTargets demo_lib demo_registry [demo_agent] False [''agentkit:out1'']
              (demo_world \<lparr>dirs = [], regular = []\<rparr>) = (Return, ?w1)"
    by (simp add: strings_SplitN2_def trim demo_generate_agentkit Let_def)
  have h2: "strings_SplitN2 ''nope:out2'' (CHR '':'') = [''nope'', ''out2'']"
    by (simp add: strings_SplitN2_def)
  have h3: "generateAgents demo_lib demo_registry [demo_agent] (strings_TrimSpace demo_lib ''nope'')
              (strings_TrimSpace demo_lib ''out2'') False ?w1
            = (Some (Errorf ''unknown format %q (available: %s)'' [S ''nope'', S ''agentkit, kiro'']), ?w2)"
    unfolding trim by (simp add: demo_simps Let_def)
  have h4: "processTargets demo_lib demo_registry ''proj'' [] False ''stats-team'' [demo_agent]
              [demo_target ''local'' ''agentkit-local'' ''out1'']
              (demo_world \<lparr>dirs = [(''proj'', 493)], regular = []\<rparr>) = (None, ?v1)"
    by (simp add: demo_simps Let_def generateForPlatform_def announceTarget_def WriteFullConfig_def)
  have h5: "([]::string) = [] \<or> tgtPriority (demo_target ''edge'' ''cloud-run'' ''out2'') = []"
    by simp
  have h6: "generateForPlatform demo_lib demo_registry ''stats-team'' [demo_agent]
              (demo_target ''edge'' ''cloud-run'' ''out2'')
              (filepath_Join demo_lib ''proj'' (tgtOutput (demo_target ''edge'' ''cloud-run'' ''out2''))) False
              (announceTarget False (demo_target ''edge'' ''cloud-run'' ''out2'')
                 (filepath_Join demo_lib ''proj'' (tgtOutput (demo_target ''edge'' ''cloud-run'' ''out2''))) ?v1)
            = (Some (Errorf ''unsupported platform: %s'' [S ''cloud-run'']), ?v1)"
    by (simp add: generateForPlatform_def announceTarget_def demo_target_def)
  from generation_stops_at_first_failure [OF h1 h2 h3 h4 h5 h6, of "[''kiro:out3'']"
      "[demo_target ''cli'' ''kiro-cli'' ''out3'']"]
  show ?thesis
    by (simp add: trim Fprintf_Stderr_def demo_target_def)
qed

end
